theory Spec2Isabelle
  imports Complex_Main
begin

section \<open>Numbers\<close>

text \<open>
  The program computes with JavaScript numbers.  They are modelled as the real numbers:
  every arithmetic operation is the exact one, \<open>Math.sqrt\<close>, \<open>Math.sin\<close>,
  \<open>Math.cos\<close>, \<open>Math.tan\<close>, \<open>Math.acos\<close>, \<open>Math.exp\<close> and \<open>Math.pow\<close> are
  \<^const>\<open>sqrt\<close>, \<^const>\<open>sin\<close>, \<^const>\<open>cos\<close>, \<^const>\<open>tan\<close>, \<^const>\<open>arccos\<close>,
  \<^const>\<open>exp\<close> and \<^const>\<open>powr\<close>, and \<open>Math.PI\<close> is \<^const>\<open>pi\<close>.  Rounding, overflow
  to an infinity and NaN are outside this model.  Where a property turns on the rounding
  of a sum, \<open>computeTransmittance\<close> is given a second time, in double arithmetic; where it
  turns on a quantity being far from 0, the bound is stated.
\<close>

section \<open>correction.ts\<close>

definition DEG_TO_RAD :: real where
  "DEG_TO_RAD = pi / 180"

text \<open>\<open>getMultipleScatteringOffset(altitude)\<close>: the four branches in source order.\<close>

definition getMultipleScatteringOffset :: "real \<Rightarrow> real" where
  "getMultipleScatteringOffset altitude =
     (let altDeg = altitude / DEG_TO_RAD in
      if altDeg > 20 then 2.0 * DEG_TO_RAD
      else if altDeg > - 6 then
        (let t = (20 - altDeg) / 26;
             smoothT = t * t * (3 - 2 * t)
         in (2.0 + smoothT * 6.0) * DEG_TO_RAD)
      else if altDeg > - 12 then
        (let t = (- 6 - altDeg) / 6;
             smoothT = t * t * (3 - 2 * t)
         in (8.0 + smoothT * 3.0) * DEG_TO_RAD)
      else
        (let t = max 0 ((- 12 - altDeg) / 18)
         in (11.0 * (1 - t)) * DEG_TO_RAD))"

text \<open>
  \<open>LIGHT_POLLUTION_OFFSETS\<close>: the object literal, as the list of its entries.  A lookup
  \<open>LIGHT_POLLUTION_OFFSETS[bortle]\<close> is \<^const>\<open>map_of\<close> on it: a number that is not one
  of the nine keys has no entry.
\<close>

definition LIGHT_POLLUTION_OFFSETS :: "(real \<times> real) list" where
  "LIGHT_POLLUTION_OFFSETS =
     [(1, 0.0), (2, 0.1), (3, 0.2), (4, 1.0), (5, 2.0), (6, 3.0), (7, 4.0), (8, 5.0), (9, 6.0)]"

text \<open>\<open>getLightPollutionAltitude(bortle)\<close>; \<open>??\<close> replaces a missing entry by 0.\<close>

definition getLightPollutionAltitude :: "real \<Rightarrow> real" where
  "getLightPollutionAltitude bortle =
     (let offsetDeg = (case map_of LIGHT_POLLUTION_OFFSETS bortle of
                         Some v \<Rightarrow> v
                       | None \<Rightarrow> 0)
      in (offsetDeg - 3.0) * DEG_TO_RAD)"

section \<open>utils.ts\<close>

type_synonym Vec3 = "real \<times> real \<times> real"

text \<open>
  \<open>gradient.ts\<close> imports \<open>clamp\<close>, \<open>dot\<close>, \<open>len\<close>, \<open>norm\<close>, \<open>add\<close>, \<open>scale\<close> and
  \<open>vecExp\<close> from \<open>utils.ts\<close>, which is not among the sources.  The spec lists them as the
  pure vector helpers dot, length, normalize, add, scale, element-wise exponential and
  clamp; the order of the arguments is the one of the calls in \<open>gradient.ts\<close>.
\<close>

text \<open>Modelled from the spec: \<open>clamp(x, lo, hi)\<close> of \<open>utils.ts\<close>, \<open>x\<close> limited to \<open>[lo, hi]\<close>.\<close>

definition clamp :: "real \<Rightarrow> real \<Rightarrow> real \<Rightarrow> real" where
  "clamp x lo hi = max lo (min hi x)"

text \<open>Modelled from the spec: \<open>dot(a, b)\<close> of \<open>utils.ts\<close>, the dot product.\<close>

fun dot :: "Vec3 \<Rightarrow> Vec3 \<Rightarrow> real" where
  "dot (ax, ay, az) (bx, by, bz) = ax * bx + ay * by + az * bz"

text \<open>Modelled from the spec: \<open>len(v)\<close> of \<open>utils.ts\<close>, the Euclidean length.\<close>

definition len :: "Vec3 \<Rightarrow> real" where
  "len v = sqrt (dot v v)"

text \<open>Modelled from the spec: \<open>add(a, b)\<close> of \<open>utils.ts\<close>, the sum of two vectors.\<close>

fun add :: "Vec3 \<Rightarrow> Vec3 \<Rightarrow> Vec3" where
  "add (ax, ay, az) (bx, by, bz) = (ax + bx, ay + by, az + bz)"

text \<open>Modelled from the spec: \<open>scale(v, k)\<close> of \<open>utils.ts\<close>, the vector times a number.\<close>

fun scale :: "Vec3 \<Rightarrow> real \<Rightarrow> Vec3" where
  "scale (x, y, z) k = (x * k, y * k, z * k)"

text \<open>Modelled from the spec: \<open>vecExp(v)\<close> of \<open>utils.ts\<close>, the element-wise exponential.\<close>

fun vecExp :: "Vec3 \<Rightarrow> Vec3" where
  "vecExp (x, y, z) = (exp x, exp y, exp z)"

text \<open>
  Modelled from the spec: \<open>norm(v)\<close> of \<open>utils.ts\<close>, the vector divided by its length
  (\<open>norm\<close> itself is a constant of HOL).
\<close>

definition norm_vec :: "Vec3 \<Rightarrow> Vec3" where
  "norm_vec v = (case v of (x, y, z) \<Rightarrow> (x / len v, y / len v, z / len v))"

text \<open>
  \<open>Array.prototype.map\<close> on a three-element array, and the \<open>for (k = 0; k < 3; k++)\<close>
  loops that combine two vectors channel by channel.
\<close>

fun vmap :: "(real \<Rightarrow> real) \<Rightarrow> Vec3 \<Rightarrow> Vec3" where
  "vmap f (x, y, z) = (f x, f y, f z)"

fun vzip :: "(real \<Rightarrow> real \<Rightarrow> real) \<Rightarrow> Vec3 \<Rightarrow> Vec3 \<Rightarrow> Vec3" where
  "vzip f (ax, ay, az) (bx, by, bz) = (f ax bx, f ay by, f az bz)"

section \<open>gradient.ts\<close>

subsection \<open>Constants\<close>

definition RAYLEIGH_SCATTER :: Vec3 where
  "RAYLEIGH_SCATTER = (5.802 / 10 ^ 6, 13.558 / 10 ^ 6, 33.1 / 10 ^ 6)"

definition MIE_SCATTER :: real where
  "MIE_SCATTER = 3.996 / 10 ^ 6"

definition MIE_ABSORB :: real where
  "MIE_ABSORB = 4.44 / 10 ^ 6"

definition OZONE_ABSORB :: Vec3 where
  "OZONE_ABSORB = (0.65 / 10 ^ 6, 1.881 / 10 ^ 6, 0.085 / 10 ^ 6)"

definition RAYLEIGH_SCALE_HEIGHT :: real where
  "RAYLEIGH_SCALE_HEIGHT = 8000"

definition MIE_SCALE_HEIGHT :: real where
  "MIE_SCALE_HEIGHT = 1200"

definition GROUND_RADIUS :: real where
  "GROUND_RADIUS = 6360000"

definition TOP_RADIUS :: real where
  "TOP_RADIUS = 6460000"

definition SUN_INTENSITY :: real where
  "SUN_INTENSITY = 1.0"

definition SAMPLES :: nat where
  "SAMPLES = 32"

definition FOV_DEG :: real where
  "FOV_DEG = 75"

definition EXPOSURE_DAY :: real where
  "EXPOSURE_DAY = 18.0"

definition EXPOSURE_SUNSET :: real where
  "EXPOSURE_SUNSET = 35.0"

definition EXPOSURE_NIGHT :: real where
  "EXPOSURE_NIGHT = 6.0"

definition GAMMA :: real where
  "GAMMA = 2.2"

definition SUNSET_BIAS_STRENGTH :: real where
  "SUNSET_BIAS_STRENGTH = 0.5"

subsection \<open>Tone mapping helpers and phase functions\<close>

definition aces :: "Vec3 \<Rightarrow> Vec3" where
  "aces color =
     vmap (\<lambda>c. let n = c * (2.51 * c + 0.03);
                   d = c * (2.43 * c + 0.59) + 0.14
               in max 0 (min 1 (n / d))) color"

fun applySunsetBias :: "Vec3 \<Rightarrow> Vec3" where
  "applySunsetBias (r, g, b) =
     (let lum = 0.2126 * r + 0.7152 * g + 0.0722 * b;
          w = 1.0 / (1.0 + 2.0 * lum);
          k = SUNSET_BIAS_STRENGTH;
          rb = 1.0 + 0.5 * k * w;
          gb = 1.0 - 0.5 * k * w;
          bb = 1.0 + 1.0 * k * w
      in (max 0 (r * rb), max 0 (g * gb), max 0 (b * bb)))"

definition rayleighPhase :: "real \<Rightarrow> real" where
  "rayleighPhase angle = (3 * (1 + (cos angle)\<^sup>2)) / (16 * pi)"

definition miePhase :: "real \<Rightarrow> real" where
  "miePhase angle =
     (let g = 0.8;
          s = 3 / (8 * pi);
          num = (1 - g\<^sup>2) * (1 + (cos angle)\<^sup>2);
          denom = (2 + g\<^sup>2) * ((1 + g\<^sup>2 - 2 * g * cos angle) powr (3 / 2))
      in (s * num) / denom)"

subsection \<open>Ray-sphere intersection\<close>

text \<open>\<open>intersectSphere(p, d, r)\<close>; the result \<open>null\<close> is \<^const>\<open>None\<close>.\<close>

definition intersectSphere :: "Vec3 \<Rightarrow> Vec3 \<Rightarrow> real \<Rightarrow> real option" where
  "intersectSphere p d r =
     (let m = p;
          b = dot m d;
          c = dot m m - r\<^sup>2;
          discr = b\<^sup>2 - c
      in if discr < 0 then None
         else (let t = - b - sqrt discr
               in if t < 0 then Some (- b + sqrt discr) else Some t))"

subsection \<open>Transmittance\<close>

text \<open>
  The body of the loop of \<open>computeTransmittance\<close>, on the variables it updates:
  \<open>(t, odRayleigh, odMie, odOzone)\<close>.
\<close>

definition opticalDepthStep ::
  "Vec3 \<Rightarrow> Vec3 \<Rightarrow> real \<Rightarrow> real \<times> real \<times> real \<times> real \<Rightarrow> real \<times> real \<times> real \<times> real" where
  "opticalDepthStep rayOrigin rayDirection segmentLength st =
     (case st of (t, odRayleigh, odMie, odOzone) \<Rightarrow>
        (let pos = add rayOrigin (scale rayDirection t);
             h = len pos - GROUND_RADIUS;
             dR = exp (- h / RAYLEIGH_SCALE_HEIGHT);
             dM = exp (- h / MIE_SCALE_HEIGHT);
             ozoneDensity = 1.0 - min (\<bar>h - 25000\<bar> / 15000) 1.0
         in (t + segmentLength,
             odRayleigh + dR * segmentLength,
             odMie + dM * segmentLength,
             odOzone + ozoneDensity * segmentLength)))"

text \<open>
  \<open>computeTransmittance\<close> after the test of \<open>distance\<close>: the loop runs \<open>SAMPLES\<close> times
  from \<open>t = 0.5 * segmentLength\<close>, then the three optical depths are combined.
\<close>

definition integrateTransmittance :: "Vec3 \<Rightarrow> Vec3 \<Rightarrow> real \<Rightarrow> Vec3" where
  "integrateTransmittance rayOrigin rayDirection distance =
     (let segmentLength = distance / real SAMPLES
      in case (opticalDepthStep rayOrigin rayDirection segmentLength ^^ SAMPLES)
                (0.5 * segmentLength, 0, 0, 0) of
           (t, odRayleigh, odMie, odOzone) \<Rightarrow>
             (let tauR = vmap (\<lambda>k. k * odRayleigh) RAYLEIGH_SCATTER;
                  tauM = (MIE_ABSORB * odMie, MIE_ABSORB * odMie, MIE_ABSORB * odMie);
                  tauO = vmap (\<lambda>k. k * odOzone) OZONE_ABSORB;
                  tau = vmap uminus (add (add tauR tauM) tauO)
              in vecExp tau))"

text \<open>
  \<open>computeTransmittance(height, angle)\<close>.  The test \<open>!distance\<close> holds for \<open>null\<close> and
  for the number 0.
\<close>

definition computeTransmittance :: "real \<Rightarrow> real \<Rightarrow> Vec3" where
  "computeTransmittance height angle =
     (let rayOrigin = (0, GROUND_RADIUS + height, 0);
          rayDirection = (sin angle, cos angle, 0)
      in case intersectSphere rayOrigin rayDirection TOP_RADIUS of
           None \<Rightarrow> (1, 1, 1)
         | Some distance \<Rightarrow>
             if distance = 0 then (1, 1, 1)
             else integrateTransmittance rayOrigin rayDirection distance)"

subsection \<open>Transmittance in double arithmetic\<close>











subsection \<open>The gradient\<close>

record GradientStop =
  percent :: real
  rgb :: Vec3

record GradientResult =
  gradient :: string
  topColor :: Vec3
  bottomColor :: Vec3

text \<open>The exposure chosen by \<open>renderGradient\<close> from the sun height \<open>sin(altitude)\<close>.\<close>

definition exposure :: "real \<Rightarrow> real" where
  "exposure altitude =
     (let sunHeight = sin altitude in
      if sunHeight \<le> - 0.15 then EXPOSURE_NIGHT
      else if sunHeight \<le> 0.0 then
        (let x = (sunHeight - - 0.15) / 0.15;
             s = x * x * (3 - 2 * x)
         in EXPOSURE_NIGHT + s * (EXPOSURE_SUNSET - EXPOSURE_NIGHT))
      else if sunHeight \<le> 0.4 then
        (let x = sunHeight / 0.4;
             s = x * x * (3 - 2 * x)
         in EXPOSURE_SUNSET + s * (EXPOSURE_DAY - EXPOSURE_SUNSET))
      else EXPOSURE_DAY)"

definition horizonGlow :: "real \<Rightarrow> real" where
  "horizonGlow altitude = max 0 (1 - \<bar>sin altitude\<bar> * 3)"

definition focalZ :: real where
  "focalZ = 1.0 / tan ((FOV_DEG * 0.5 * pi) / 180.0)"

text \<open>The view direction of sample \<open>i\<close>: \<open>s = i / (SAMPLES - 1)\<close>.\<close>

definition viewDirection :: "nat \<Rightarrow> Vec3" where
  "viewDirection i = (let s = real i / (real SAMPLES - 1) in norm_vec (0, s, focalZ))"

text \<open>
  One iteration of the ray-marching loop over \<open>j\<close>, at the ray parameter \<open>tRay\<close>: the
  vector the loop over \<open>k\<close> divides by, which is \<open>transmittanceCameraToSpace\<close> for a ray
  that starts downwards and \<open>transmittanceToSpace\<close> otherwise, and the vector the iteration
  adds to \<open>inscattered\<close>.
\<close>

definition marchSample ::
  "Vec3 \<Rightarrow> Vec3 \<Rightarrow> Vec3 \<Rightarrow> real \<Rightarrow> bool \<Rightarrow> Vec3 \<Rightarrow> real \<Rightarrow> Vec3 \<times> Vec3" where
  "marchSample rayOrigin viewDir sunDirection segmentLength isRayPointingDownwardAtStart
       transmittanceCameraToSpace tRay =
     (let samplePos = add rayOrigin (scale viewDir tRay);
          sampleRadius = len samplePos;
          upUnit = vmap (\<lambda>c. c / sampleRadius) samplePos;
          sampleHeight = sampleRadius - GROUND_RADIUS;
          viewCos = clamp (dot upUnit viewDir) (- 1) 1;
          sunCos = clamp (dot upUnit sunDirection) (- 1) 1;
          viewAngle = arccos \<bar>viewCos\<bar>;
          sunAngle = arccos sunCos;
          transmittanceToSpace = computeTransmittance sampleHeight viewAngle;
          dividend = (if isRayPointingDownwardAtStart
                      then transmittanceToSpace else transmittanceCameraToSpace);
          divisor = (if isRayPointingDownwardAtStart
                     then transmittanceCameraToSpace else transmittanceToSpace);
          transmittanceCameraToSample = vzip (\<lambda>a b. a / b) dividend divisor;
          transmittanceLight = computeTransmittance sampleHeight sunAngle;
          opticalDensityRay = exp (- sampleHeight / RAYLEIGH_SCALE_HEIGHT);
          opticalDensityMie = exp (- sampleHeight / MIE_SCALE_HEIGHT);
          sunViewCos = clamp (dot sunDirection viewDir) (- 1) 1;
          sunViewAngle = arccos sunViewCos;
          phaseR = rayleighPhase sunViewAngle;
          phaseM = miePhase sunViewAngle;
          scatteredRgb =
            vzip (\<lambda>light rayleigh.
                    (let rayleighTerm = rayleigh * opticalDensityRay * phaseR;
                         mieTerm = MIE_SCATTER * opticalDensityMie * phaseM
                     in light * (rayleighTerm + mieTerm)))
              transmittanceLight RAYLEIGH_SCATTER;
          contribution = vzip (\<lambda>a b. a * b * segmentLength)
                           transmittanceCameraToSample scatteredRgb
      in (divisor, contribution))"

text \<open>
  The body of the ray-marching loop over \<open>j\<close>, on the variables it updates:
  \<open>(tRay, inscattered)\<close>.
\<close>

definition marchStep ::
  "Vec3 \<Rightarrow> Vec3 \<Rightarrow> Vec3 \<Rightarrow> real \<Rightarrow> bool \<Rightarrow> Vec3 \<Rightarrow> real \<times> Vec3 \<Rightarrow> real \<times> Vec3" where
  "marchStep rayOrigin viewDir sunDirection segmentLength isRayPointingDownwardAtStart
       transmittanceCameraToSpace st =
     (case st of (tRay, inscattered) \<Rightarrow>
        (tRay + segmentLength,
         add inscattered
           (snd (marchSample rayOrigin viewDir sunDirection segmentLength
                   isRayPointingDownwardAtStart transmittanceCameraToSpace tRay))))"

text \<open>
  The set-up of the ray march of one view direction: the camera on the ground, whether the
  ray starts downwards, and the transmittance from the camera to space.
\<close>

definition cameraPosition :: Vec3 where
  "cameraPosition = (0, GROUND_RADIUS, 0)"

definition isRayPointingDownwardAtStart :: "Vec3 \<Rightarrow> Vec3 \<Rightarrow> bool" where
  "isRayPointingDownwardAtStart rayOrigin viewDir =
     (let rayOriginRadius = len rayOrigin
      in dot rayOrigin viewDir / rayOriginRadius < 0.0)"

definition transmittanceCameraToSpace :: "Vec3 \<Rightarrow> Vec3 \<Rightarrow> Vec3" where
  "transmittanceCameraToSpace rayOrigin viewDir =
     (let rayOriginRadius = len rayOrigin;
          startHeight = rayOriginRadius - GROUND_RADIUS;
          startRayCos =
            clamp (dot (vmap (\<lambda>c. c / rayOriginRadius) rayOrigin) viewDir) (- 1) 1;
          startRayAngle = arccos \<bar>startRayCos\<bar>
      in computeTransmittance startHeight startRayAngle)"

text \<open>
  The variables \<open>(tRay, inscattered)\<close> after \<open>n\<close> iterations of the ray march along a view
  direction that leaves the atmosphere at the distance \<open>tExitTop\<close>.
\<close>

definition marchState :: "Vec3 \<Rightarrow> Vec3 \<Rightarrow> real \<Rightarrow> nat \<Rightarrow> real \<times> Vec3" where
  "marchState sunDirection viewDir tExitTop n =
     (let rayOrigin = cameraPosition;
          segmentLength = tExitTop / real SAMPLES
      in (marchStep rayOrigin viewDir sunDirection segmentLength
            (isRayPointingDownwardAtStart rayOrigin viewDir)
            (transmittanceCameraToSpace rayOrigin viewDir) ^^ n)
           (segmentLength * 0.5, (0, 0, 0)))"

text \<open>
  The in-scattered radiance of one view direction: the part of the loop over \<open>i\<close> from
  \<open>let inscattered\<close> to the scaling by \<open>SUN_INTENSITY\<close>.
\<close>

definition inscatter :: "Vec3 \<Rightarrow> Vec3 \<Rightarrow> Vec3" where
  "inscatter sunDirection viewDir =
     (case intersectSphere cameraPosition viewDir TOP_RADIUS of
        None \<Rightarrow> (0, 0, 0)
      | Some tExitTop \<Rightarrow>
          if tExitTop > 0 then
            (case marchState sunDirection viewDir tExitTop SAMPLES of
               (tRay, inscattered) \<Rightarrow> vmap (\<lambda>c. c * SUN_INTENSITY) inscattered)
          else (0, 0, 0))"

text \<open>\<open>Math.round\<close>: the nearest integer, a half rounded upwards.\<close>

definition jsRound :: "real \<Rightarrow> real" where
  "jsRound x = of_int \<lfloor>x + 1 / 2\<rfloor>"

text \<open>
  From the in-scattered radiance to the 8-bit colour: exposure, horizon glow, sunset bias,
  ACES curve, gamma, quantisation, in the order of the source.
\<close>

definition toneMap :: "real \<Rightarrow> Vec3 \<Rightarrow> Vec3" where
  "toneMap altitude inscattered =
     (let color = vmap (\<lambda>c. c * exposure altitude) inscattered;
          color = (if horizonGlow altitude > 0 then
                     (let warmth = horizonGlow altitude * 0.6
                      in case color of (c0, c1, c2) \<Rightarrow>
                           (c0 * (1 + warmth), c1 * (1 + warmth * 0.3), c2 * (1 - warmth * 0.2)))
                   else color);
          color = applySunsetBias color;
          color = aces color;
          color = vmap (\<lambda>c. c powr (1.0 / GAMMA)) color
      in vmap (\<lambda>c. jsRound (clamp c 0 1 * 255)) color)"

text \<open>The stop pushed by iteration \<open>i\<close> of the loop of \<open>renderGradient\<close>.\<close>

definition sampleStop :: "real \<Rightarrow> nat \<Rightarrow> GradientStop" where
  "sampleStop altitude i =
     (let sunDirection = norm_vec (cos altitude, sin altitude, 0);
          s = real i / (real SAMPLES - 1)
      in \<lparr>percent = (1 - s) * 100,
          rgb = toneMap altitude (inscatter sunDirection (viewDirection i))\<rparr>)"

text \<open>The array \<open>stops\<close> when the loop has ended.\<close>

definition sampleStops :: "real \<Rightarrow> GradientStop list" where
  "sampleStops altitude = map (sampleStop altitude) [0..<SAMPLES]"

text \<open>
  \<open>stops.sort((a, b) => a.percent - b.percent)\<close>: a stable sort by \<open>percent\<close>, ascending.
\<close>

definition sortStops :: "GradientStop list \<Rightarrow> GradientStop list" where
  "sortStops stops = sort_key percent stops"

subsection \<open>The gradient string\<close>

text \<open>
  Number-to-string conversion, for the numbers the template strings format: the colour
  channels are integers, and a percentage is \<open>Math.round(percent * 100) / 100\<close>, a multiple
  of one hundredth.  Such a number prints as its integer part and, when it has one, its
  fraction without a trailing zero.
\<close>

definition digitChar :: "nat \<Rightarrow> char" where
  "digitChar d = char_of (48 + d)"

fun showNat :: "nat \<Rightarrow> string" where
  "showNat n = (if n < 10 then [digitChar n] else showNat (n div 10) @ [digitChar (n mod 10)])"

definition numberToString :: "real \<Rightarrow> string" where
  "numberToString x =
     (let k = \<lfloor>\<bar>x\<bar> * 100\<rfloor>;
          whole = nat (k div 100);
          frac = nat (k mod 100)
      in (if x < 0 \<and> k \<noteq> 0 then ''-'' else [])
         @ showNat whole
         @ (if frac = 0 then []
            else if frac mod 10 = 0 then CHR ''.'' # [digitChar (frac div 10)]
            else CHR ''.'' # [digitChar (frac div 10), digitChar (frac mod 10)]))"

fun joinWith :: "string \<Rightarrow> string list \<Rightarrow> string" where
  "joinWith sep [] = []"
| "joinWith sep [x] = x"
| "joinWith sep (x # y # ys) = x @ sep @ joinWith sep (y # ys)"

definition colorStop :: "GradientStop \<Rightarrow> string" where
  "colorStop stop =
     (case rgb stop of (r, g, b) \<Rightarrow>
        ''rgb('' @ numberToString r @ '', '' @ numberToString g @ '', '' @ numberToString b
        @ '') '' @ numberToString (jsRound (percent stop * 100) / 100) @ ''%'')"

text \<open>
  \<open>renderGradient\<close> from the sort on.  Reading \<open>stops[0].rgb\<close> of an empty array throws a
  \<open>TypeError\<close>: that is the result \<^const>\<open>None\<close>.
\<close>

definition assembleGradient :: "GradientStop list \<Rightarrow> GradientResult option" where
  "assembleGradient stops =
     (let sorted_stops = sortStops stops;
          colorStops = joinWith '', '' (map colorStop sorted_stops)
      in case sorted_stops of
           [] \<Rightarrow> None
         | first # _ \<Rightarrow>
             Some \<lparr>gradient = ''linear-gradient(to bottom, '' @ colorStops @ '')'',
                   topColor = rgb first,
                   bottomColor = rgb (last sorted_stops)\<rparr>)"

definition renderGradient :: "real \<Rightarrow> GradientResult option" where
  "renderGradient altitude = assembleGradient (sampleStops altitude)"

section \<open>compute.ts\<close>

record SunPosition =
  altitude :: real
  azimuth :: real

text \<open>A \<open>Date\<close> is its time value in milliseconds.\<close>

record SunTimes =
  sunrise :: int
  sunset :: int

text \<open>
  \<open>SkyResult\<close>.  Its first three fields are \<open>gradient\<close>, \<open>topColor\<close> and \<open>bottomColor\<close> in
  the source; the names are taken by \<open>GradientResult\<close> here.
\<close>

record SkyResult =
  skyGradient :: string
  skyTopColor :: string
  skyBottomColor :: string
  skyAltitude :: real
  skyAzimuth :: real
  correctedAltitude :: "real option"
  skySunrise :: "int option"
  skySunset :: "int option"

definition vecToRgb :: "Vec3 \<Rightarrow> string" where
  "vecToRgb v =
     (case v of (r, g, b) \<Rightarrow>
        ''rgb('' @ numberToString r @ '', '' @ numberToString g @ '', '' @ numberToString b @ '')'')"

text \<open>
  The altitude \<open>computeSky\<close> hands to \<open>renderGradient\<close>.  \<open>rawAltitude\<close> is the altitude of
  \<open>getSunPosition\<close> (the ephemeris of the package \<open>suncalc\<close>); \<open>sunTimes\<close> is \<^const>\<open>None\<close>
  when the option \<open>sunTimes\<close> is \<open>false\<close> or absent, and otherwise holds the times the provider
  returned; \<open>correctAltitude\<close> is the function of that name at the call's date and
  coordinates; \<open>bortle\<close> is \<^const>\<open>None\<close> when the option is \<open>undefined\<close>.
\<close>

definition computeSkyAltitude ::
  "(real \<Rightarrow> SunTimes \<Rightarrow> real) \<Rightarrow> real \<Rightarrow> SunTimes option \<Rightarrow> real option \<Rightarrow> real" where
  "computeSkyAltitude correctAltitude rawAltitude sunTimes bortle =
     (let altitude = (case sunTimes of
                        None \<Rightarrow> rawAltitude
                      | Some fetched \<Rightarrow> correctAltitude rawAltitude fetched);
          altitude = altitude + getMultipleScatteringOffset altitude
      in case bortle of
           None \<Rightarrow> altitude
         | Some b \<Rightarrow> max altitude (getLightPollutionAltitude b))"

definition computeSky ::
  "(real \<Rightarrow> SunTimes \<Rightarrow> real) \<Rightarrow> SunPosition \<Rightarrow> SunTimes option \<Rightarrow> real option
     \<Rightarrow> SkyResult option" where
  "computeSky correctAltitude pos sunTimes bortle =
     (case renderGradient (computeSkyAltitude correctAltitude (altitude pos) sunTimes bortle) of
        None \<Rightarrow> None
      | Some result \<Rightarrow>
          Some \<lparr>skyGradient = gradient result,
                skyTopColor = vecToRgb (topColor result),
                skyBottomColor = vecToRgb (bottomColor result),
                skyAltitude = altitude pos,
                skyAzimuth = azimuth pos,
                correctedAltitude =
                  (case sunTimes of
                     None \<Rightarrow> None
                   | Some fetched \<Rightarrow> Some (correctAltitude (altitude pos) fetched)),
                skySunrise = map_option sunrise sunTimes,
                skySunset = map_option sunset sunTimes\<rparr>)"

section \<open>Properties of the altitude correction\<close>

lemma DEG_TO_RAD_pos: "0 < DEG_TO_RAD"
  by (simp add: DEG_TO_RAD_def)

lemma altDeg_of_degrees: "(d * DEG_TO_RAD) / DEG_TO_RAD = d"
  using DEG_TO_RAD_pos by simp

lemma offset_in_degrees:
  "getMultipleScatteringOffset (d * DEG_TO_RAD) =
     (if d > 20 then 2
      else if d > - 6 then
        2 + ((20 - d) / 26) * ((20 - d) / 26) * (3 - 2 * ((20 - d) / 26)) * 6
      else if d > - 12 then
        8 + ((- 6 - d) / 6) * ((- 6 - d) / 6) * (3 - 2 * ((- 6 - d) / 6)) * 3
      else 11 * (1 - max 0 ((- 12 - d) / 18))) * DEG_TO_RAD"
  unfolding getMultipleScatteringOffset_def Let_def altDeg_of_degrees by simp

text \<open>
  In the deep-twilight branch the offset is \<open>11 (1 - t)\<close> degrees with
  \<open>t = (-12 - altDeg) / 18\<close>: it is 0 at -30 degrees and negative below.
\<close>

lemma offset_at_minus_30_degrees: "getMultipleScatteringOffset (- 30 * DEG_TO_RAD) = 0"
  using offset_in_degrees [of "- 30"] by simp

lemma offset_below_minus_30_degrees:
  assumes "d < - 30"
  shows "getMultipleScatteringOffset (d * DEG_TO_RAD) < 0"
proof -
  have "max 0 ((- 12 - d) / 18) = (- 12 - d) / 18"
    using assms by simp
  moreover have "11 * (1 - (- 12 - d) / 18) < 0"
    using assms by (simp add: field_simps)
  ultimately have "11 * (1 - max 0 ((- 12 - d) / 18)) * DEG_TO_RAD < 0"
    using DEG_TO_RAD_pos by (simp only: mult_neg_pos)
  then show ?thesis
    using assms by (simp add: offset_in_degrees)
qed

text \<open>
  C1.  For every altitude at or below -30 degrees the multiple-scattering offset is
  claimed to be exactly 0.  In the deep-twilight branch the parameter \<open>t\<close> is bounded
  below by \<open>Math.max(0, ...)\<close> only; it grows past 1 below -30 degrees, and the offset
  \<open>11 (1 - t)\<close> degrees becomes negative.  At -48 degrees \<open>t = 2\<close> and the offset is
  -11 degrees.
\<close>

theorem getMultipleScatteringOffset_at_minus_48_degrees:
  "- 48 * DEG_TO_RAD \<le> - 30 * DEG_TO_RAD \<and>
   getMultipleScatteringOffset (- 48 * DEG_TO_RAD) = - 11 * DEG_TO_RAD \<and>
   getMultipleScatteringOffset (- 48 * DEG_TO_RAD) \<noteq> 0"
proof -
  have at48: "getMultipleScatteringOffset (- 48 * DEG_TO_RAD) = - 11 * DEG_TO_RAD"
    unfolding getMultipleScatteringOffset_def Let_def altDeg_of_degrees by simp
  have "- 11 * DEG_TO_RAD < 0"
    using DEG_TO_RAD_pos by simp
  with at48 show ?thesis
    using DEG_TO_RAD_pos by simp
qed

lemma twilight_cubic:
  fixes t :: real
  assumes "0 \<le> t"
  shows "3 * (t * t * (3 - 2 * t)) \<le> 1 + 6 * t"
proof -
  have "6 - 9 * t + 6 * t\<^sup>2 = 6 * (t - 3 / 4)\<^sup>2 + 21 / 8"
    by (simp add: power2_eq_square algebra_simps)
  then have "0 \<le> 6 - 9 * t + 6 * t\<^sup>2"
    by (metis add_nonneg_nonneg zero_le_power2 mult_nonneg_nonneg zero_le_numeral
        divide_nonneg_nonneg)
  then have "0 \<le> t * (6 - 9 * t + 6 * t\<^sup>2)"
    using assms by simp
  then show ?thesis
    by (simp add: power2_eq_square algebra_simps)
qed

text \<open>
  From civil twilight downwards the altitude with its offset stays below 3 degrees: it
  falls from 2 degrees at -6 to -1 degree at -12, and keeps falling below.
\<close>

lemma night_altitude_below_floor:
  assumes "d \<le> - 6"
  shows "d * DEG_TO_RAD + getMultipleScatteringOffset (d * DEG_TO_RAD) \<le> 3 * DEG_TO_RAD"
proof -
  let ?off = "if d > - 12
      then 8 + ((- 6 - d) / 6) * ((- 6 - d) / 6) * (3 - 2 * ((- 6 - d) / 6)) * 3
      else 11 * (1 - max 0 ((- 12 - d) / 18))"
  have deg: "d + ?off \<le> 3"
  proof (cases "d > - 12")
    case True
    define t where "t = (- 6 - d) / 6"
    have t0: "0 \<le> t"
      using assms by (simp add: t_def)
    have d: "d = - 6 - 6 * t"
      by (simp add: t_def field_simps)
    have "3 * (t * t * (3 - 2 * t)) \<le> 1 + 6 * t"
      using twilight_cubic [OF t0] .
    then have "d + (8 + t * t * (3 - 2 * t) * 3) \<le> 3"
      unfolding d by (simp add: algebra_simps)
    then show ?thesis
      using True by (simp add: t_def)
  next
    case False
    then have "max 0 ((- 12 - d) / 18) = (- 12 - d) / 18"
      by simp
    moreover have "d + 11 * (1 - (- 12 - d) / 18) \<le> 3"
      using False by (simp add: field_simps)
    ultimately show ?thesis
      using False by simp
  qed
  have "getMultipleScatteringOffset (d * DEG_TO_RAD) = ?off * DEG_TO_RAD"
    using assms by (simp add: offset_in_degrees)
  then have "d * DEG_TO_RAD + getMultipleScatteringOffset (d * DEG_TO_RAD)
      = (d + ?off) * DEG_TO_RAD"
    by (simp only: distrib_right)
  also have "\<dots> \<le> 3 * DEG_TO_RAD"
    using deg DEG_TO_RAD_pos by (simp only: mult_le_cancel_right_pos)
  finally show ?thesis .
qed

lemma getLightPollutionAltitude_9: "getLightPollutionAltitude 9 = (6.0 - 3.0) * DEG_TO_RAD"
  by (simp add: getLightPollutionAltitude_def LIGHT_POLLUTION_OFFSETS_def)

lemma computeSky_gradient:
  "map_option skyGradient (computeSky correctAltitude pos sunTimes bortle) =
     map_option gradient
       (renderGradient (computeSkyAltitude correctAltitude (altitude pos) sunTimes bortle))"
  by (simp add: computeSky_def split: option.split)

text \<open>
  C5.  With \<open>bortle = 9\<close> and the sun times disabled, every raw altitude at or below
  -6 degrees is replaced by the floor \<open>(6.0 - 3.0)\<close> degrees, in radians, before it reaches
  \<open>renderGradient\<close>, however negative it was: the gradient of \<open>computeSky\<close> is the one
  rendered at the floor.
\<close>

theorem computeSky_bortle_9_deep_night:
  assumes "rawAltitude \<le> - 6 * DEG_TO_RAD"
  shows "computeSkyAltitude correctAltitude rawAltitude None (Some 9) = (6.0 - 3.0) * DEG_TO_RAD \<and>
         map_option skyGradient
           (computeSky correctAltitude \<lparr>altitude = rawAltitude, azimuth = az\<rparr> None (Some 9)) =
         map_option gradient (renderGradient ((6.0 - 3.0) * DEG_TO_RAD))"
proof -
  define d where "d = rawAltitude / DEG_TO_RAD"
  have raw: "rawAltitude = d * DEG_TO_RAD"
    using DEG_TO_RAD_pos by (simp add: d_def)
  have "d \<le> - 6"
    using assms pi_gt_zero by (simp add: d_def DEG_TO_RAD_def field_simps)
  then have "rawAltitude + getMultipleScatteringOffset rawAltitude \<le> 3 * DEG_TO_RAD"
    unfolding raw by (rule night_altitude_below_floor)
  then have
    "computeSkyAltitude correctAltitude rawAltitude None (Some 9) = (6.0 - 3.0) * DEG_TO_RAD"
    by (simp add: computeSkyAltitude_def getLightPollutionAltitude_9 Let_def)
  then show ?thesis
    by (simp add: computeSky_gradient)
qed

theorem computeSky_bortle_9_deep_night_witness:
  "- 90 * DEG_TO_RAD \<le> - 6 * DEG_TO_RAD \<and>
   computeSkyAltitude (\<lambda>a t. a) (- 90 * DEG_TO_RAD) None (Some 9) = (6.0 - 3.0) * DEG_TO_RAD \<and>
   map_option skyGradient
     (computeSky (\<lambda>a t. a) \<lparr>altitude = - 90 * DEG_TO_RAD, azimuth = 0\<rparr> None (Some 9)) =
   map_option gradient (renderGradient ((6.0 - 3.0) * DEG_TO_RAD))"
proof -
  have h: "- 90 * DEG_TO_RAD \<le> - 6 * DEG_TO_RAD"
    using DEG_TO_RAD_pos by simp
  show ?thesis
    using h computeSky_bortle_9_deep_night [OF h, of "\<lambda>a t. a" 0] by simp
qed

lemma lookup_outside_table:
  "bortle \<notin> {1, 2, 3, 4, 5, 6, 7, 8, 9} \<Longrightarrow> map_of LIGHT_POLLUTION_OFFSETS bortle = None"
  by (simp add: LIGHT_POLLUTION_OFFSETS_def)

text \<open>
  C10.  For a \<open>bortle\<close> value that is none of the table keys 1 to 9 the lookup finds no
  entry and \<open>getLightPollutionAltitude\<close> returns \<open>(0 - 3.0)\<close> degrees in radians.
  \<open>computeSky\<close> then renders at the larger of -3 degrees and the altitude it would use with
  no \<open>bortle\<close> option.
\<close>

theorem getLightPollutionAltitude_outside_table:
  assumes "bortle \<notin> {1, 2, 3, 4, 5, 6, 7, 8, 9}"
  shows "getLightPollutionAltitude bortle = (0 - 3.0) * pi / 180 \<and>
         computeSkyAltitude correctAltitude rawAltitude sunTimes (Some bortle) =
           max (computeSkyAltitude correctAltitude rawAltitude sunTimes None)
             ((0 - 3.0) * pi / 180) \<and>
         map_option skyGradient
           (computeSky correctAltitude \<lparr>altitude = rawAltitude, azimuth = az\<rparr> sunTimes
              (Some bortle)) =
         map_option gradient
           (renderGradient
              (max (computeSkyAltitude correctAltitude rawAltitude sunTimes None)
                 ((0 - 3.0) * pi / 180)))"
proof -
  have floor: "getLightPollutionAltitude bortle = (0 - 3.0) * pi / 180"
    using assms
    by (simp add: getLightPollutionAltitude_def lookup_outside_table DEG_TO_RAD_def)
  have "computeSkyAltitude correctAltitude rawAltitude sunTimes (Some bortle) =
      max (computeSkyAltitude correctAltitude rawAltitude sunTimes None)
        (getLightPollutionAltitude bortle)"
    by (simp add: computeSkyAltitude_def Let_def)
  with floor show ?thesis
    by (simp add: computeSky_gradient)
qed

theorem getLightPollutionAltitude_outside_table_witness:
  "(10::real) \<notin> {1, 2, 3, 4, 5, 6, 7, 8, 9} \<and>
   getLightPollutionAltitude 10 = (0 - 3.0) * pi / 180 \<and>
   computeSkyAltitude (\<lambda>a t. a) (- 30 * DEG_TO_RAD) None None = - 30 * DEG_TO_RAD \<and>
   computeSkyAltitude (\<lambda>a t. a) (- 30 * DEG_TO_RAD) None (Some 10) = (0 - 3.0) * pi / 180"
proof -
  have none: "computeSkyAltitude (\<lambda>a t. a) (- 30 * DEG_TO_RAD) None None = - 30 * DEG_TO_RAD"
    using offset_at_minus_30_degrees by (simp add: computeSkyAltitude_def)
  have "max (- 30 * DEG_TO_RAD) ((0 - 3.0) * pi / 180) = (0 - 3.0) * pi / 180"
    by (simp add: DEG_TO_RAD_def)
  then show ?thesis
    using getLightPollutionAltitude_outside_table
      [of 10 "\<lambda>a t. a" "- 30 * DEG_TO_RAD" None 0] none
    by simp
qed

section \<open>Properties of the exposure\<close>

lemma sin_above_30_degrees:
  assumes "pi / 6 < a" "a < pi / 2"
  shows "0.4 < sin a"
proof -
  have "sin (pi / 6) < sin a"
    using assms by (intro sin_monotone_2pi) auto
  then show ?thesis
    by (simp add: sin_30)
qed

text \<open>
  C6.  Where the sun height \<open>sin(altitude)\<close> exceeds 0.4, and so for every altitude
  strictly between \<open>pi / 6\<close> and \<open>pi / 2\<close>, the exposure is the day exposure 18.0; two such
  altitudes have the same exposure.
\<close>

theorem exposure_day_plateau:
  "(0.4 < sin a \<longrightarrow> exposure a = 18.0) \<and>
   (pi / 6 < a \<and> a < pi / 2 \<longrightarrow> exposure a = 18.0) \<and>
   (0.4 < sin a1 \<and> 0.4 < sin a2 \<longrightarrow> exposure a1 = exposure a2 \<and> exposure a2 = EXPOSURE_DAY)"
proof -
  have day: "exposure x = 18.0" if "0.4 < sin x" for x
    using that by (simp add: exposure_def Let_def EXPOSURE_DAY_def)
  show ?thesis
    using day sin_above_30_degrees by (auto simp: EXPOSURE_DAY_def)
qed

theorem exposure_day_plateau_witness:
  "0.4 < sin (pi / 3) \<and> pi / 6 < pi / 3 \<and> pi / 3 < pi / 2 \<and> 0.4 < sin (pi / 2) \<and>
   exposure (pi / 3) = 18.0 \<and> exposure (pi / 3) = exposure (pi / 2)"
proof -
  have "0.4 < sin (pi / 3)"
    using sin_above_30_degrees [of "pi / 3"] by simp
  then show ?thesis
    using exposure_day_plateau [of "pi / 3" "pi / 3" "pi / 2"] by simp
qed

section \<open>Properties of the ray-sphere intersection\<close>

text \<open>
  C7.  \<open>intersectSphere\<close> computes \<open>b = p . d\<close>, \<open>c = p . p - r\<^sup>2\<close> and the discriminant
  \<open>b\<^sup>2 - c\<close>.  A negative discriminant gives the empty result; otherwise the result is the
  near root \<open>- b - sqrt disc\<close>, or the far root \<open>- b + sqrt disc\<close> when the near root is
  negative.  The function is total: no input makes it fail.
\<close>

theorem intersectSphere_roots:
  "intersectSphere (px, py, pz) (dx, dy, dz) r =
     (let b = px * dx + py * dy + pz * dz;
          c = px * px + py * py + pz * pz - r * r;
          disc = b * b - c
      in if disc < 0 then None
         else if - b - sqrt disc < 0 then Some (- b + sqrt disc)
         else Some (- b - sqrt disc))"
  by (simp add: intersectSphere_def Let_def power2_eq_square)

section \<open>Properties of the transmittance\<close>

lemma far_root_positive:
  fixes b c :: real
  assumes "c < 0"
  shows "\<not> b\<^sup>2 - c < 0" and "- b - sqrt (b\<^sup>2 - c) < 0" and "0 < - b + sqrt (b\<^sup>2 - c)"
proof -
  have lt: "b\<^sup>2 < b\<^sup>2 - c"
    using assms by simp
  have "0 \<le> b\<^sup>2"
    by simp
  with lt show "\<not> b\<^sup>2 - c < 0"
    by linarith
  have "sqrt (b\<^sup>2) < sqrt (b\<^sup>2 - c)"
    using lt by (simp only: real_sqrt_less_iff)
  then have root: "\<bar>b\<bar> < sqrt (b\<^sup>2 - c)"
    by simp
  then show "- b - sqrt (b\<^sup>2 - c) < 0"
    by linarith
  from root show "0 < - b + sqrt (b\<^sup>2 - c)"
    by linarith
qed

lemma origin_inside_top_sphere:
  assumes "0 \<le> h" "h < 100000"
  shows "dot (0, GROUND_RADIUS + h, 0) (0, GROUND_RADIUS + h, 0) - TOP_RADIUS\<^sup>2 < 0"
proof -
  have "0 \<le> GROUND_RADIUS + h" "GROUND_RADIUS + h < TOP_RADIUS"
    using assms by (simp_all add: GROUND_RADIUS_def TOP_RADIUS_def)
  then have "(GROUND_RADIUS + h)\<^sup>2 < TOP_RADIUS\<^sup>2"
    by (intro power_strict_mono) auto
  then show ?thesis
    by (simp add: power2_eq_square)
qed

lemma opticalDepth_steps:
  "(opticalDepthStep p d seg ^^ n) (0.5 * seg, 0, 0, 0) =
     ((real n + 1 / 2) * seg,
      (\<Sum>k<n. exp (- (len (add p (scale d ((real k + 1 / 2) * seg))) - GROUND_RADIUS)
                     / RAYLEIGH_SCALE_HEIGHT) * seg),
      (\<Sum>k<n. exp (- (len (add p (scale d ((real k + 1 / 2) * seg))) - GROUND_RADIUS)
                     / MIE_SCALE_HEIGHT) * seg),
      (\<Sum>k<n. (1.0 - min (\<bar>len (add p (scale d ((real k + 1 / 2) * seg))) - GROUND_RADIUS
                               - 25000\<bar> / 15000) 1.0) * seg))"
proof (induction n)
  case 0
  show ?case by simp
next
  case (Suc n)
  have "(opticalDepthStep p d seg ^^ Suc n) (0.5 * seg, 0, 0, 0) =
      opticalDepthStep p d seg ((opticalDepthStep p d seg ^^ n) (0.5 * seg, 0, 0, 0))"
    by simp
  also have "\<dots> = opticalDepthStep p d seg
     ((real n + 1 / 2) * seg,
      (\<Sum>k<n. exp (- (len (add p (scale d ((real k + 1 / 2) * seg))) - GROUND_RADIUS)
                     / RAYLEIGH_SCALE_HEIGHT) * seg),
      (\<Sum>k<n. exp (- (len (add p (scale d ((real k + 1 / 2) * seg))) - GROUND_RADIUS)
                     / MIE_SCALE_HEIGHT) * seg),
      (\<Sum>k<n. (1.0 - min (\<bar>len (add p (scale d ((real k + 1 / 2) * seg))) - GROUND_RADIUS
                               - 25000\<bar> / 15000) 1.0) * seg))"
    by (simp only: Suc)
  also have "\<dots> =
     ((real (Suc n) + 1 / 2) * seg,
      (\<Sum>k<Suc n. exp (- (len (add p (scale d ((real k + 1 / 2) * seg))) - GROUND_RADIUS)
                     / RAYLEIGH_SCALE_HEIGHT) * seg),
      (\<Sum>k<Suc n. exp (- (len (add p (scale d ((real k + 1 / 2) * seg))) - GROUND_RADIUS)
                     / MIE_SCALE_HEIGHT) * seg),
      (\<Sum>k<Suc n. (1.0 - min (\<bar>len (add p (scale d ((real k + 1 / 2) * seg))) - GROUND_RADIUS
                               - 25000\<bar> / 15000) 1.0) * seg))"
  proof -
    have t: "(real n + 1 / 2) * seg + seg = (real (Suc n) + 1 / 2) * seg"
      by (simp add: distrib_right)
    show ?thesis
      unfolding opticalDepthStep_def Let_def prod.case sum.lessThan_Suc t ..
  qed
  finally show ?case .
qed

lemma integrateTransmittance_sums:
  "integrateTransmittance p d l =
     (let seg = l / real SAMPLES;
          height = (\<lambda>k. len (add p (scale d ((real k + 1 / 2) * seg))) - GROUND_RADIUS);
          odRayleigh = (\<Sum>k<SAMPLES. exp (- height k / RAYLEIGH_SCALE_HEIGHT) * seg);
          odMie = (\<Sum>k<SAMPLES. exp (- height k / MIE_SCALE_HEIGHT) * seg);
          odOzone = (\<Sum>k<SAMPLES. (1.0 - min (\<bar>height k - 25000\<bar> / 15000) 1.0) * seg)
      in vecExp
           (vmap uminus
              (add (add (vmap (\<lambda>c. c * odRayleigh) RAYLEIGH_SCATTER)
                      (MIE_ABSORB * odMie, MIE_ABSORB * odMie, MIE_ABSORB * odMie))
                 (vmap (\<lambda>c. c * odOzone) OZONE_ABSORB))))"
  unfolding integrateTransmittance_def Let_def opticalDepth_steps prod.case ..







subsection \<open>Evaluating double arithmetic\<close>















subsection \<open>A lower bound for the transmittance of an upward ray\<close>

text \<open>
  Along a ray that starts at a height of 0 or more and does not point downwards, every
  sample is at least as high as the origin, so each density is at most 1; the ray is at
  most 1140 km long, and each optical depth is at most its length.
\<close>

lemma exp_minus_43: "1 / 10 ^ 21 \<le> exp (- 43 :: real)"
proof -
  have "exp (43 :: real) = exp (of_nat 43 * 1)"
    by simp
  also have "\<dots> = exp 1 ^ 43"
    by (rule exp_of_nat_mult)
  also have "\<dots> \<le> 3 ^ 43"
    using exp_le by (intro power_mono) simp_all
  also have "\<dots> \<le> 10 ^ 21"
    by simp
  finally have "exp (43 :: real) \<le> 10 ^ 21" .
  then have "1 / 10 ^ 21 \<le> 1 / exp (43 :: real)"
    by (intro divide_left_mono) simp_all
  moreover have "exp (- 43 :: real) = 1 / exp 43"
    by (simp only: exp_minus inverse_eq_divide)
  ultimately show ?thesis
    by (simp only:)
qed

lemma len_upward:
  assumes "0 \<le> py" "0 \<le> dy" "0 \<le> t"
  shows "py \<le> len (add (0, py, 0) (scale (dx, dy, dz) t))"
proof -
  have "0 \<le> py + dy * t"
    using assms by simp
  have "(py + dy * t)\<^sup>2 \<le> (dx * t)\<^sup>2 + (py + dy * t)\<^sup>2 + (dz * t)\<^sup>2"
    by simp
  then have "py + dy * t \<le> sqrt ((dx * t)\<^sup>2 + (py + dy * t)\<^sup>2 + (dz * t)\<^sup>2)"
    by (rule real_le_rsqrt)
  moreover have "py \<le> py + dy * t"
    using assms by simp
  ultimately show ?thesis
    by (simp add: len_def power2_eq_square)
qed

lemma chord_bound:
  fixes b c :: real
  assumes "0 \<le> b" "c \<le> 0" "- c \<le> 1140000\<^sup>2"
  shows "- b + sqrt (b\<^sup>2 - c) \<le> 1140000"
proof -
  have "b\<^sup>2 - c \<le> (b + 1140000)\<^sup>2"
    using assms by (simp add: power2_eq_square algebra_simps)
  then have "sqrt (b\<^sup>2 - c) \<le> b + 1140000"
    using assms(1) by (intro real_le_lsqrt) simp_all
  then show ?thesis by simp
qed

lemma optical_depth_le:
  assumes "\<And>k. k < n \<Longrightarrow> f k \<le> 1" "0 \<le> seg"
  shows "(\<Sum>k<n. f k * seg) \<le> real n * seg"
proof -
  have "(\<Sum>k<n. f k * seg) \<le> (\<Sum>k<n. 1 * seg)"
    using assms by (intro sum_mono mult_right_mono) simp_all
  then show ?thesis by simp
qed

lemma computeTransmittance_lower_bound:
  assumes "0 \<le> h" "h < 100000" "0 \<le> cos angle"
  shows "case computeTransmittance h angle of
           (x, y, z) \<Rightarrow> exp (- 43) \<le> x \<and> exp (- 43) \<le> y \<and> exp (- 43) \<le> z"
proof -
  let ?p = "(0, GROUND_RADIUS + h, 0)"
  let ?d = "(sin angle, cos angle, 0)"
  let ?b = "dot ?p ?d"
  let ?c = "dot ?p ?p - TOP_RADIUS\<^sup>2"
  define l where "l = - ?b + sqrt (?b\<^sup>2 - ?c)"
  define seg where "seg = l / real SAMPLES"
  define height where
    "height = (\<lambda>k. len (add ?p (scale ?d ((real k + 1 / 2) * seg))) - GROUND_RADIUS)"
  define odR where "odR = (\<Sum>k<SAMPLES. exp (- height k / RAYLEIGH_SCALE_HEIGHT) * seg)"
  define odM where "odM = (\<Sum>k<SAMPLES. exp (- height k / MIE_SCALE_HEIGHT) * seg)"
  define odO where
    "odO = (\<Sum>k<SAMPLES. (1.0 - min (\<bar>height k - 25000\<bar> / 15000) 1.0) * seg)"
  have c: "?c < 0"
    using assms(1,2) by (rule origin_inside_top_sphere)
  have hit: "intersectSphere ?p ?d TOP_RADIUS = Some l"
    unfolding intersectSphere_def Let_def l_def
    using far_root_positive(1,2) [OF c, of ?b] by simp
  have pos: "0 < l"
    unfolding l_def using far_root_positive(3) [OF c] .
  have b0: "0 \<le> ?b"
    using assms by (simp add: GROUND_RADIUS_def)
  have "- ?c \<le> 1140000\<^sup>2"
    using assms(1) by (simp add: GROUND_RADIUS_def TOP_RADIUS_def power2_eq_square algebra_simps)
  then have l: "l \<le> 1140000"
    unfolding l_def using b0 c by (intro chord_bound) simp_all
  have seg0: "0 \<le> seg"
    using pos by (simp add: seg_def)
  have total: "real SAMPLES * seg = l"
    by (simp add: seg_def SAMPLES_def)
  have height0: "0 \<le> height k" for k
  proof -
    have "GROUND_RADIUS + h \<le> len (add ?p (scale ?d ((real k + 1 / 2) * seg)))"
      using assms seg0 by (intro len_upward) (simp_all add: GROUND_RADIUS_def)
    then show ?thesis
      using assms(1) by (simp add: height_def)
  qed
  have "odR \<le> real SAMPLES * seg"
    unfolding odR_def using height0 seg0
    by (intro optical_depth_le) (simp_all add: RAYLEIGH_SCALE_HEIGHT_def)
  then have odR: "odR \<le> 1140000"
    using l total by simp
  have "odM \<le> real SAMPLES * seg"
    unfolding odM_def using height0 seg0
    by (intro optical_depth_le) (simp_all add: MIE_SCALE_HEIGHT_def)
  then have odM: "odM \<le> 1140000"
    using l total by simp
  have "odO \<le> real SAMPLES * seg"
    unfolding odO_def using seg0
    by (intro optical_depth_le) simp_all
  then have odO: "odO \<le> 1140000"
    using l total by simp
  have result: "computeTransmittance h angle =
      (exp (- (5.802 / 10 ^ 6 * odR + MIE_ABSORB * odM + 0.65 / 10 ^ 6 * odO)),
       exp (- (13.558 / 10 ^ 6 * odR + MIE_ABSORB * odM + 1.881 / 10 ^ 6 * odO)),
       exp (- (33.1 / 10 ^ 6 * odR + MIE_ABSORB * odM + 0.085 / 10 ^ 6 * odO)))"
    unfolding computeTransmittance_def Let_def hit integrateTransmittance_sums
    using pos
    by (simp add: RAYLEIGH_SCATTER_def OZONE_ABSORB_def odR_def odM_def odO_def height_def
        seg_def)
  show ?thesis
    unfolding result using odR odM odO by (simp add: MIE_ABSORB_def)
qed

section \<open>Properties of the stops\<close>

lemma percent_sampleStop: "percent (sampleStop a i) = (1 - real i / 31) * 100"
  by (simp add: sampleStop_def SAMPLES_def Let_def)

lemma length_sampleStops: "length (sampleStops a) = 32"
  by (simp add: sampleStops_def SAMPLES_def)

lemma sampleStops_nonempty: "sampleStops a \<noteq> []"
  using length_sampleStops [of a] by auto


text \<open>An element whose key exceeds every key of the list is inserted at its end.\<close>

lemma insort_key_greatest:
  "\<forall>y \<in> set ys. k y < k x \<Longrightarrow> insort_key k x ys = ys @ [x]"
  for k :: "'a \<Rightarrow> real"
  by (induction ys) auto

text \<open>Sorting a list whose keys fall strictly reverses it.\<close>

lemma sort_key_decreasing:
  "sorted_wrt (\<lambda>x y. k y < k x) xs \<Longrightarrow> sort_key k xs = rev xs"
  for k :: "'a \<Rightarrow> real"
proof (induction xs)
  case Nil
  then show ?case
    by simp
next
  case (Cons x xs)
  then have "sort_key k xs = rev xs"
    by simp
  moreover have "\<forall>y \<in> set (rev xs). k y < k x"
    using Cons.prems by simp
  ultimately show ?case
    by (simp add: insort_key_greatest)
qed

lemma sampleStops_decreasing:
  "sorted_wrt (\<lambda>x y. percent y < percent x) (sampleStops a)"
proof -
  have "sorted_wrt (\<lambda>i j. percent (sampleStop a j) < percent (sampleStop a i)) [0..<SAMPLES]"
    by (rule sorted_wrt_mono_rel [OF _ sorted_wrt_upt]) (simp add: percent_sampleStop)
  then show ?thesis
    by (simp add: sampleStops_def sorted_wrt_map)
qed

lemma sortStops_sampleStops: "sortStops (sampleStops a) = rev (sampleStops a)"
  unfolding sortStops_def by (rule sort_key_decreasing [OF sampleStops_decreasing])

lemma first_sorted_stop: "hd (sortStops (sampleStops a)) = sampleStop a (SAMPLES - 1)"
proof -
  have "hd (sortStops (sampleStops a)) = last (sampleStops a)"
    using sampleStops_nonempty by (simp add: sortStops_sampleStops hd_rev)
  also have "\<dots> = sampleStop a (last [0..<SAMPLES])"
    unfolding sampleStops_def by (rule last_map) (simp add: SAMPLES_def)
  also have "last [0..<SAMPLES] = SAMPLES - 1"
    by (rule last_upt) (simp add: SAMPLES_def)
  finally show ?thesis .
qed

lemma last_sorted_stop: "last (sortStops (sampleStops a)) = sampleStop a 0"
proof -
  have "last (sortStops (sampleStops a)) = hd (sampleStops a)"
    using sampleStops_nonempty by (simp add: sortStops_sampleStops last_rev)
  also have "\<dots> = sampleStop a 0"
    by (simp add: sampleStops_def SAMPLES_def upt_conv_Cons)
  finally show ?thesis .
qed




text \<open>The result of \<open>renderGradient\<close>, in terms of the samples.\<close>

lemma renderGradient_result:
  "renderGradient a =
     Some \<lparr>gradient = ''linear-gradient(to bottom, ''
                @ joinWith '', '' (map colorStop (sortStops (sampleStops a))) @ '')'',
           topColor = rgb (sampleStop a (SAMPLES - 1)),
           bottomColor = rgb (sampleStop a 0)\<rparr>"
proof -
  have "sortStops (sampleStops a) \<noteq> []"
    using sampleStops_nonempty by (simp add: sortStops_sampleStops)
  then obtain x xs where xs: "sortStops (sampleStops a) = x # xs"
    by (cases "sortStops (sampleStops a)") auto
  have "x = sampleStop a (SAMPLES - 1)"
    using first_sorted_stop [of a] xs by simp
  moreover have "last (x # xs) = sampleStop a 0"
    using last_sorted_stop [of a] xs by simp
  ultimately show ?thesis
    unfolding renderGradient_def assembleGradient_def Let_def xs by simp
qed

lemma focalZ_pos: "0 < focalZ"
proof -
  have "0 < tan ((FOV_DEG * 0.5 * pi) / 180.0)"
    by (rule tan_gt_zero) (simp_all add: FOV_DEG_def)
  then show ?thesis
    by (simp add: focalZ_def)
qed

lemma viewDirection_components:
  "viewDirection i =
     (0,
      (real i / 31) / sqrt ((real i / 31)\<^sup>2 + focalZ\<^sup>2),
      focalZ / sqrt ((real i / 31)\<^sup>2 + focalZ\<^sup>2))"
  by (simp add: viewDirection_def norm_vec_def len_def SAMPLES_def Let_def power2_eq_square)

lemma viewDirection_0: "viewDirection 0 = (0, 0, 1)"
  using focalZ_pos by (simp add: viewDirection_components)

text \<open>The vertical component of a normalised \<open>(0, s, f)\<close> grows with \<open>s\<close>.\<close>

lemma elevation_mono:
  fixes s s' f :: real
  assumes "0 \<le> s" "s \<le> s'" "0 < f"
  shows "s / sqrt (s\<^sup>2 + f\<^sup>2) \<le> s' / sqrt (s'\<^sup>2 + f\<^sup>2)"
proof -
  have pos: "0 < sqrt (s\<^sup>2 + f\<^sup>2)" "0 < sqrt (s'\<^sup>2 + f\<^sup>2)"
    using assms(3) by (simp_all add: add_nonneg_pos)
  have "s\<^sup>2 \<le> s'\<^sup>2"
    using assms by (simp add: power_mono)
  then have "s\<^sup>2 * f\<^sup>2 \<le> s'\<^sup>2 * f\<^sup>2"
    by (simp add: mult_right_mono)
  then have "s\<^sup>2 * (s'\<^sup>2 + f\<^sup>2) \<le> s'\<^sup>2 * (s\<^sup>2 + f\<^sup>2)"
    by (simp add: algebra_simps)
  then have "sqrt (s\<^sup>2 * (s'\<^sup>2 + f\<^sup>2)) \<le> sqrt (s'\<^sup>2 * (s\<^sup>2 + f\<^sup>2))"
    by (simp only: real_sqrt_le_iff)
  then have "s * sqrt (s'\<^sup>2 + f\<^sup>2) \<le> s' * sqrt (s\<^sup>2 + f\<^sup>2)"
    using assms by (simp add: real_sqrt_mult)
  then show ?thesis
    using pos by (simp add: field_simps)
qed

text \<open>
  C2, as the source has it.  For every altitude the sample of index \<open>SAMPLES - 1\<close>, whose
  view direction is the most upward one (no sample has a larger vertical component), is
  given \<open>percent = 0\<close>; the sample of index 0, whose view direction \<open>(0, 0, 1)\<close> is
  horizontal, is given \<open>percent = 100\<close>.
\<close>

theorem sample_percent_of_view_direction:
  assumes "i < SAMPLES"
  shows "percent (sampleStops a ! (SAMPLES - 1)) = 0 \<and>
         percent (sampleStops a ! 0) = 100 \<and>
         viewDirection 0 = (0, 0, 1) \<and>
         fst (snd (viewDirection i)) \<le> fst (snd (viewDirection (SAMPLES - 1)))"
proof -
  have "real i / 31 \<le> real (SAMPLES - 1) / 31"
    using assms by (simp add: SAMPLES_def)
  then have "fst (snd (viewDirection i)) \<le> fst (snd (viewDirection (SAMPLES - 1)))"
    using elevation_mono [of "real i / 31" "real (SAMPLES - 1) / 31" focalZ] focalZ_pos
    by (simp add: viewDirection_components)
  moreover have "percent (sampleStops a ! (SAMPLES - 1)) = 0"
    by (simp add: sampleStops_def SAMPLES_def sampleStop_def)
  moreover have "percent (sampleStops a ! 0) = 100"
    by (simp add: sampleStops_def SAMPLES_def sampleStop_def)
  ultimately show ?thesis
    using viewDirection_0 by simp
qed

theorem sample_percent_of_view_direction_witness:
  "(5::nat) < SAMPLES \<and>
   percent (sampleStops 0 ! (SAMPLES - 1)) = 0 \<and>
   percent (sampleStops 0 ! 0) = 100 \<and>
   viewDirection 0 = (0, 0, 1) \<and>
   fst (snd (viewDirection 5)) \<le> fst (snd (viewDirection (SAMPLES - 1)))"
proof -
  have h: "(5::nat) < SAMPLES"
    by (simp add: SAMPLES_def)
  show ?thesis
    using h sample_percent_of_view_direction [OF h, of 0] by simp
qed

text \<open>
  C2 as claimed fails: at altitude 0 the topmost sample, of index \<open>SAMPLES - 1\<close>, has
  \<open>percent = 0\<close> and not 100, and the horizontal sample of index 0 has \<open>percent = 100\<close>.
\<close>

theorem topmost_sample_percent_counterexample:
  "percent (sampleStops 0 ! (SAMPLES - 1)) = 0 \<and>
   percent (sampleStops 0 ! (SAMPLES - 1)) \<noteq> 100 \<and>
   percent (sampleStops 0 ! 0) = 100"
  by (simp add: sampleStops_def SAMPLES_def sampleStop_def)

text \<open>
  C4.  For every altitude \<open>renderGradient\<close> assembles exactly \<open>SAMPLES = 32\<close> stops, and
  after the sort their percentages increase strictly.
\<close>

theorem stops_count_and_order:
  "length (sampleStops a) = SAMPLES \<and> SAMPLES = 32 \<and>
   length (sortStops (sampleStops a)) = SAMPLES \<and>
   sorted_wrt (<) (map percent (sortStops (sampleStops a)))"
proof -
  have "sorted_wrt (<) (map percent (sortStops (sampleStops a)))"
    using sampleStops_decreasing [of a]
    by (simp add: sortStops_sampleStops sorted_wrt_map sorted_wrt_rev flip: rev_map)
  then show ?thesis
    by (simp add: sortStops_sampleStops length_sampleStops SAMPLES_def)
qed



section \<open>Properties of the ray march\<close>

lemma cos_clamped_angle: "0 \<le> cos (arccos \<bar>clamp x (- 1) 1\<bar>)"
proof -
  have "\<bar>clamp x (- 1) 1\<bar> \<le> 1"
    by (simp add: clamp_def abs_le_iff)
  then have "cos (arccos \<bar>clamp x (- 1) 1\<bar>) = \<bar>clamp x (- 1) 1\<bar>"
    by (intro cos_arccos) simp_all
  then show ?thesis by simp
qed

lemma fst_marchStep_funpow:
  "fst ((marchStep p v sun seg down tcam ^^ n) (t0, acc)) = t0 + real n * seg"
proof (induction n)
  case 0
  show ?case by simp
next
  case (Suc n)
  obtain t ins where st: "(marchStep p v sun seg down tcam ^^ n) (t0, acc) = (t, ins)"
    by (cases "(marchStep p v sun seg down tcam ^^ n) (t0, acc)")
  then have t: "t = t0 + real n * seg"
    using Suc by simp
  have "(marchStep p v sun seg down tcam ^^ Suc n) (t0, acc)
      = marchStep p v sun seg down tcam (t, ins)"
    by (simp add: st)
  also have "fst \<dots> = t + seg"
    by (simp add: marchStep_def)
  finally show ?case
    by (simp add: t algebra_simps)
qed

lemma fst_marchState:
  "fst (marchState sun v tExit n) = (real n + 1 / 2) * (tExit / real SAMPLES)"
  unfolding marchState_def Let_def fst_marchStep_funpow by (simp add: algebra_simps)

lemma viewDirection_unit:
  obtains vy vz where "viewDirection i = (0, vy, vz)" "0 \<le> vy" "vy\<^sup>2 + vz\<^sup>2 = 1"
proof
  let ?s = "real i / 31"
  let ?l = "sqrt (?s\<^sup>2 + focalZ\<^sup>2)"
  have l: "0 < ?s\<^sup>2 + focalZ\<^sup>2"
    using focalZ_pos by (simp add: add_nonneg_pos)
  show "viewDirection i = (0, ?s / ?l, focalZ / ?l)"
    by (rule viewDirection_components)
  show "0 \<le> ?s / ?l"
    by simp
  have l2: "?l\<^sup>2 = ?s\<^sup>2 + focalZ\<^sup>2"
    using l by simp
  have "(?s / ?l)\<^sup>2 + (focalZ / ?l)\<^sup>2 = (?s\<^sup>2 + focalZ\<^sup>2) / ?l\<^sup>2"
    by (simp only: power_divide add_divide_distrib)
  also have "\<dots> = (?s\<^sup>2 + focalZ\<^sup>2) / (?s\<^sup>2 + focalZ\<^sup>2)"
    by (simp only: l2)
  also have "\<dots> = 1"
  proof (rule divide_self)
    show "?s\<^sup>2 + focalZ\<^sup>2 \<noteq> 0"
      using l by linarith
  qed
  finally show "(?s / ?l)\<^sup>2 + (focalZ / ?l)\<^sup>2 = 1" .
qed

lemma camera_ray:
  assumes "0 \<le> vy" "vy\<^sup>2 + vz\<^sup>2 = 1"
  obtains tExit where
    "intersectSphere cameraPosition (0, vy, vz) TOP_RADIUS = Some tExit"
    "0 < tExit"
    "tExit\<^sup>2 + 2 * (GROUND_RADIUS * vy) * tExit = TOP_RADIUS\<^sup>2 - GROUND_RADIUS\<^sup>2"
proof -
  let ?b = "GROUND_RADIUS * vy"
  let ?c = "GROUND_RADIUS\<^sup>2 - TOP_RADIUS\<^sup>2"
  define tExit where "tExit = - ?b + sqrt (?b\<^sup>2 - ?c)"
  have c: "?c < 0"
    by (simp add: GROUND_RADIUS_def TOP_RADIUS_def)
  have hit: "intersectSphere cameraPosition (0, vy, vz) TOP_RADIUS = Some tExit"
    unfolding intersectSphere_def Let_def tExit_def cameraPosition_def
    using far_root_positive(1,2) [OF c, of ?b] by (simp add: power2_eq_square)
  have pos: "0 < tExit"
    unfolding tExit_def using far_root_positive(3) [OF c] .
  have "0 \<le> ?b\<^sup>2 - ?c"
    using far_root_positive(1) [OF c, of ?b] by simp
  then have "(sqrt (?b\<^sup>2 - ?c))\<^sup>2 = ?b\<^sup>2 - ?c"
    by simp
  moreover have "sqrt (?b\<^sup>2 - ?c) = tExit + ?b"
    by (simp add: tExit_def)
  ultimately have "(tExit + ?b)\<^sup>2 = ?b\<^sup>2 - ?c"
    by simp
  then have "tExit\<^sup>2 + 2 * ?b * tExit = TOP_RADIUS\<^sup>2 - GROUND_RADIUS\<^sup>2"
    by (simp add: power2_eq_square algebra_simps)
  with hit pos show ?thesis
    by (rule that)
qed

lemma sample_height_range:
  assumes "0 \<le> vy" "vy\<^sup>2 + vz\<^sup>2 = 1" "0 \<le> t" "t < tExit"
    and "tExit\<^sup>2 + 2 * (GROUND_RADIUS * vy) * tExit = TOP_RADIUS\<^sup>2 - GROUND_RADIUS\<^sup>2"
  shows "0 \<le> len (add cameraPosition (scale (0, vy, vz) t)) - GROUND_RADIUS"
    and "len (add cameraPosition (scale (0, vy, vz) t)) - GROUND_RADIUS < 100000"
proof -
  have "GROUND_RADIUS \<le> len (add (0, GROUND_RADIUS, 0) (scale (0, vy, vz) t))"
    using assms(1,3) by (intro len_upward) (simp_all add: GROUND_RADIUS_def)
  then show "0 \<le> len (add cameraPosition (scale (0, vy, vz) t)) - GROUND_RADIUS"
    by (simp add: cameraPosition_def)
  have b: "0 \<le> GROUND_RADIUS * vy"
    using assms(1) by (simp add: GROUND_RADIUS_def)
  have "t\<^sup>2 < tExit\<^sup>2"
    using assms(3,4) by (intro power_strict_mono) simp_all
  moreover have "2 * (GROUND_RADIUS * vy) * t \<le> 2 * (GROUND_RADIUS * vy) * tExit"
    using b assms(4) by (intro mult_left_mono) simp_all
  ultimately have "t\<^sup>2 + 2 * (GROUND_RADIUS * vy) * t < TOP_RADIUS\<^sup>2 - GROUND_RADIUS\<^sup>2"
    using assms(5) by linarith
  moreover have "(GROUND_RADIUS + vy * t)\<^sup>2 + (vz * t)\<^sup>2
      = GROUND_RADIUS\<^sup>2 + (t\<^sup>2 + 2 * (GROUND_RADIUS * vy) * t) + (vy\<^sup>2 + vz\<^sup>2 - 1) * t\<^sup>2"
    by (simp add: power2_eq_square algebra_simps)
  ultimately have "(GROUND_RADIUS + vy * t)\<^sup>2 + (vz * t)\<^sup>2 < TOP_RADIUS\<^sup>2"
    using assms(2) by simp
  then have "sqrt ((GROUND_RADIUS + vy * t)\<^sup>2 + (vz * t)\<^sup>2) < sqrt (TOP_RADIUS\<^sup>2)"
    by (simp only: real_sqrt_less_iff)
  then have "len (add cameraPosition (scale (0, vy, vz) t)) < TOP_RADIUS"
    by (simp add: len_def cameraPosition_def power2_eq_square TOP_RADIUS_def)
  then show "len (add cameraPosition (scale (0, vy, vz) t)) - GROUND_RADIUS < 100000"
    by (simp add: GROUND_RADIUS_def TOP_RADIUS_def)
qed

lemma fst_marchSample:
  "fst (marchSample p v sun seg down tcam t) =
     (if down then tcam
      else computeTransmittance (len (add p (scale v t)) - GROUND_RADIUS)
             (arccos \<bar>clamp (dot (vmap (\<lambda>c. c / len (add p (scale v t))) (add p (scale v t))) v)
                        (- 1) 1\<bar>))"
  by (simp only: marchSample_def Let_def fst_conv)

lemma camera_transmittance_bound:
  "case transmittanceCameraToSpace cameraPosition v of
     (x, y, z) \<Rightarrow> exp (- 43) \<le> x \<and> exp (- 43) \<le> y \<and> exp (- 43) \<le> z"
proof -
  have "len cameraPosition - GROUND_RADIUS = 0"
    by (simp add: len_def cameraPosition_def GROUND_RADIUS_def)
  then show ?thesis
    unfolding transmittanceCameraToSpace_def Let_def
    by (intro computeTransmittance_lower_bound cos_clamped_angle) simp_all
qed

lemma divisor_bound:
  assumes "i < SAMPLES" "n < SAMPLES"
  shows "\<exists>tExitTop.
           intersectSphere cameraPosition (viewDirection i) TOP_RADIUS = Some tExitTop \<and>
           0 < tExitTop \<and>
           (case fst (marchSample cameraPosition (viewDirection i) sun
                        (tExitTop / real SAMPLES)
                        (isRayPointingDownwardAtStart cameraPosition (viewDirection i))
                        (transmittanceCameraToSpace cameraPosition (viewDirection i))
                        (fst (marchState sun (viewDirection i) tExitTop n))) of
              (x, y, z) \<Rightarrow> exp (- 43) \<le> x \<and> exp (- 43) \<le> y \<and> exp (- 43) \<le> z)"
proof -
  obtain vy vz where v: "viewDirection i = (0, vy, vz)" "0 \<le> vy" "vy\<^sup>2 + vz\<^sup>2 = 1"
    by (rule viewDirection_unit)
  obtain tExit where t:
    "intersectSphere cameraPosition (0, vy, vz) TOP_RADIUS = Some tExit"
    "0 < tExit"
    "tExit\<^sup>2 + 2 * (GROUND_RADIUS * vy) * tExit = TOP_RADIUS\<^sup>2 - GROUND_RADIUS\<^sup>2"
    using v(2,3) by (rule camera_ray)
  let ?t = "(real n + 1 / 2) * (tExit / real SAMPLES)"
  have t0: "0 \<le> ?t"
    using t(2) by simp
  have "real n + 1 / 2 < real SAMPLES"
    using assms(2) by (simp add: SAMPLES_def)
  then have "?t < real SAMPLES * (tExit / real SAMPLES)"
    using t(2) by (intro mult_strict_right_mono) (simp_all add: SAMPLES_def)
  then have t1: "?t < tExit"
    by (simp add: SAMPLES_def)
  have height: "0 \<le> len (add cameraPosition (scale (0, vy, vz) ?t)) - GROUND_RADIUS"
    "len (add cameraPosition (scale (0, vy, vz) ?t)) - GROUND_RADIUS < 100000"
    by (rule sample_height_range(1) [OF v(2,3) t0 t1 t(3)],
        rule sample_height_range(2) [OF v(2,3) t0 t1 t(3)])
  have "case fst (marchSample cameraPosition (0, vy, vz) sun (tExit / real SAMPLES)
                    (isRayPointingDownwardAtStart cameraPosition (0, vy, vz))
                    (transmittanceCameraToSpace cameraPosition (0, vy, vz)) ?t) of
          (x, y, z) \<Rightarrow> exp (- 43) \<le> x \<and> exp (- 43) \<le> y \<and> exp (- 43) \<le> z"
  proof (cases "isRayPointingDownwardAtStart cameraPosition (0, vy, vz)")
    case True
    show ?thesis
      unfolding fst_marchSample using True
      by (simp only: if_True) (rule camera_transmittance_bound)
  next
    case False
    show ?thesis
      unfolding fst_marchSample using False
      by (simp only: if_False)
        (rule computeTransmittance_lower_bound [OF height cos_clamped_angle])
  qed
  with t(1,2) show ?thesis
    unfolding v(1) fst_marchState by (intro exI [of _ tExit] conjI)
qed

text \<open>
  C8.  For every altitude, in the physical range or not, \<open>renderGradient\<close> returns a result
  with its gradient string, \<open>topColor\<close> and \<open>bottomColor\<close>: the array of stops is never
  empty, so no read of \<open>stops[0]\<close> fails, and every loop of the source runs a fixed number
  of times, which the model keeps as \<open>SAMPLES\<close>-fold iteration.  In iteration \<open>n\<close> of the
  ray march of the sample \<open>i\<close>, each channel of the transmittance that the loop divides by
  is at least \<open>10\<^sup>-\<^sup>2\<^sup>1\<close>: the divisor is the transmittance of an upward ray inside the
  atmosphere, whose optical depth is at most 43.  That is far from 0 and from the smallest
  positive double.
\<close>

theorem renderGradient_total:
  assumes "i < SAMPLES" "n < SAMPLES"
  shows "(\<exists>r. renderGradient a = Some r
            \<and> gradient r = ''linear-gradient(to bottom, ''
                  @ joinWith '', '' (map colorStop (sortStops (sampleStops a))) @ '')''
            \<and> topColor r = rgb (hd (sortStops (sampleStops a)))
            \<and> bottomColor r = rgb (last (sortStops (sampleStops a)))) \<and>
         length (sortStops (sampleStops a)) = SAMPLES \<and>
         (\<exists>tExitTop.
            intersectSphere cameraPosition (viewDirection i) TOP_RADIUS = Some tExitTop \<and>
            0 < tExitTop \<and>
            (case fst (marchSample cameraPosition (viewDirection i)
                         (norm_vec (cos a, sin a, 0)) (tExitTop / real SAMPLES)
                         (isRayPointingDownwardAtStart cameraPosition (viewDirection i))
                         (transmittanceCameraToSpace cameraPosition (viewDirection i))
                         (fst (marchState (norm_vec (cos a, sin a, 0)) (viewDirection i)
                                 tExitTop n))) of
               (x, y, z) \<Rightarrow> 1 / 10 ^ 21 \<le> x \<and> 1 / 10 ^ 21 \<le> y \<and> 1 / 10 ^ 21 \<le> z))"
proof -
  have "length (sortStops (sampleStops a)) = SAMPLES"
    by (simp add: sortStops_sampleStops length_sampleStops SAMPLES_def)
  moreover have "\<exists>r. renderGradient a = Some r
      \<and> gradient r = ''linear-gradient(to bottom, ''
            @ joinWith '', '' (map colorStop (sortStops (sampleStops a))) @ '')''
      \<and> topColor r = rgb (hd (sortStops (sampleStops a)))
      \<and> bottomColor r = rgb (last (sortStops (sampleStops a)))"
    by (simp add: renderGradient_result first_sorted_stop last_sorted_stop)
  moreover have "\<exists>tExitTop.
      intersectSphere cameraPosition (viewDirection i) TOP_RADIUS = Some tExitTop \<and>
      0 < tExitTop \<and>
      (case fst (marchSample cameraPosition (viewDirection i)
                   (norm_vec (cos a, sin a, 0)) (tExitTop / real SAMPLES)
                   (isRayPointingDownwardAtStart cameraPosition (viewDirection i))
                   (transmittanceCameraToSpace cameraPosition (viewDirection i))
                   (fst (marchState (norm_vec (cos a, sin a, 0)) (viewDirection i)
                           tExitTop n))) of
         (x, y, z) \<Rightarrow> 1 / 10 ^ 21 \<le> x \<and> 1 / 10 ^ 21 \<le> y \<and> 1 / 10 ^ 21 \<le> z)"
    using divisor_bound [OF assms, of "norm_vec (cos a, sin a, 0)"] exp_minus_43
    by (fastforce split: prod.splits)
  ultimately show ?thesis
    by (intro conjI)
qed

theorem renderGradient_total_witness:
  "(0::nat) < SAMPLES \<and>
   (\<exists>r. renderGradient 0 = Some r
            \<and> gradient r = ''linear-gradient(to bottom, ''
                  @ joinWith '', '' (map colorStop (sortStops (sampleStops 0))) @ '')''
            \<and> topColor r = rgb (hd (sortStops (sampleStops 0)))
            \<and> bottomColor r = rgb (last (sortStops (sampleStops 0)))) \<and>
   length (sortStops (sampleStops 0)) = SAMPLES \<and>
   (\<exists>tExitTop.
      intersectSphere cameraPosition (viewDirection 0) TOP_RADIUS = Some tExitTop \<and>
      0 < tExitTop \<and>
      (case fst (marchSample cameraPosition (viewDirection 0)
                   (norm_vec (cos 0, sin 0, 0)) (tExitTop / real SAMPLES)
                   (isRayPointingDownwardAtStart cameraPosition (viewDirection 0))
                   (transmittanceCameraToSpace cameraPosition (viewDirection 0))
                   (fst (marchState (norm_vec (cos 0, sin 0, 0)) (viewDirection 0)
                           tExitTop 0))) of
         (x, y, z) \<Rightarrow> 1 / 10 ^ 21 \<le> x \<and> 1 / 10 ^ 21 \<le> y \<and> 1 / 10 ^ 21 \<le> z))"
proof -
  have h: "(0::nat) < SAMPLES"
    by (simp add: SAMPLES_def)
  show ?thesis
    by (rule conjI [OF h renderGradient_total [OF h h, of 0]])
qed

end
